theory Spec2Isabelle
  imports Complex_Main
begin

section \<open>Data model\<close>

text \<open>
  The marketplace keeps its data in a relational store reached through Prisma. Each table is
  a list of rows (a record per row). Monetary columns are \<open>DOUBLE PRECISION\<close> and the
  handlers compute on JavaScript numbers; the model computes on exact rationals, so the
  arithmetic of the handlers (\<open>+\<close>, \<open>-\<close>, \<open>*\<close>, \<open><\<close>) is read as exact arithmetic.
  Timestamps are milliseconds since the epoch (\<open>Date.getTime()\<close>), an \<open>int\<close>.
\<close>

datatype TransactionType = SALE | TRANSFER | MINT | DEPOSIT | WITHDRAWAL

datatype WithdrawalStatus = PENDING | APPROVED | DENIED

record Transaction =
  tx_id :: string
  tx_type :: TransactionType
  tx_amount :: rat
  tx_userId :: string
  tx_nftId :: "string option"
  tx_hash :: string

record NFT =
  nft_id :: string
  nft_tokenId :: string
  nft_name :: string
  nft_price :: "rat option"
  nft_isListed :: bool
  nft_isSold :: bool
  nft_creatorId :: string
  nft_ownerId :: "string option"
  nft_collectionId :: "string option"

record Collection =
  col_id :: string
  col_creatorId :: string

record Auction =
  auc_id :: string
  auc_nftId :: string
  auc_sellerId :: string
  auc_startPrice :: rat
  auc_currentPrice :: rat
  auc_reservePrice :: "rat option"
  auc_startTime :: int
  auc_endTime :: int
  auc_isActive :: bool

record Bid =
  bid_id :: string
  bid_auctionId :: string
  bid_nftId :: string
  bid_bidderId :: string
  bid_amount :: rat

record StockPurchase =
  sp_id :: string
  sp_userId :: string
  sp_symbol :: string
  sp_amountUSD :: rat
  sp_priceUSD :: rat
  sp_shares :: rat
  sp_date :: int
  sp_lastProfitClaimAt :: int

record WithdrawalRequest =
  wr_id :: string
  wr_userId :: string
  wr_amount :: rat
  wr_status :: WithdrawalStatus

record State =
  users :: "string list"
  collections :: "Collection list"
  nfts :: "NFT list"
  transactions :: "Transaction list"
  auctions :: "Auction list"
  bids :: "Bid list"
  stockPurchases :: "StockPurchase list"
  withdrawalRequests :: "WithdrawalRequest list"

text \<open>The authenticated caller, as \<open>requireAuth\<close> hands it to a handler.\<close>

record AuthUser =
  userId :: string
  isAdmin :: bool

subsection \<open>What a request reads from outside the store\<close>

text \<open>
  A handler reads the clock (\<open>new Date()\<close>, \<open>Date.now()\<close>), draws identifiers
  (\<open>uuidv4()\<close>, \<open>Math.random()\<close>) and talks to a store whose writes can throw. All three are
  inputs of the model: \<open>clock k\<close> is the \<open>k\<close>-th reading of the clock during the request,
  \<open>uuid k\<close> the \<open>k\<close>-th identifier drawn, \<open>randomTokens\<close> the successive token ids drawn by
  \<open>generateUniqueTokenId\<close>, and \<open>dbFails w\<close> says whether the store rejects the write \<open>w\<close>
  of this request (a constraint violation, a lost connection).
\<close>

datatype dbop =
    NFTCreate
  | NFTUpdate
  | TransactionCreate
  | AuctionCreate
  | BidCreate
  | StockPurchaseCreate
  | StockPurchaseUpdate string
  | WithdrawalRequestUpdate

record Env =
  clock :: "nat \<Rightarrow> int"
  uuid :: "nat \<Rightarrow> string"
  randomTokens :: "string list"
  dbFails :: "dbop \<Rightarrow> bool"

text \<open>
  The failures a handler answers with. Each stands for one JSON error response of the
  routes:
  \<^item> \<open>NotFound\<close>: status 404 (\<open>NFT not found\<close>, \<open>Auction not found\<close>, \<open>User not found\<close>,
    \<open>Collection not found\<close>, \<open>Not found\<close>);
  \<^item> \<open>Forbidden\<close>: status 403;
  \<^item> \<open>AlreadySold\<close>: \<open>NFT is already sold and not available for auction\<close>;
  \<^item> \<open>AlreadyActive\<close>: \<open>NFT already has an active auction\<close>;
  \<^item> \<open>Inactive\<close>: \<open>Auction is not active\<close>; \<open>Expired\<close>: \<open>Auction has ended\<close>;
  \<^item> \<open>SelfBid\<close>: \<open>You cannot bid on your own NFT\<close>;
  \<^item> \<open>BidTooLow m\<close>: \<open>Bid must be at least m ETH\<close>, with \<open>minimumBid = m\<close>;
  \<^item> \<open>AlreadyHighest\<close>: \<open>You already have the highest bid\<close>;
  \<^item> \<open>Unavailable\<close>: \<open>NFT is not available for purchase\<close>;
  \<^item> \<open>SelfPurchase\<close>: \<open>You cannot purchase your own NFT\<close>;
  \<^item> \<open>ActiveAuction\<close>: \<open>NFT is currently in an active auction\<close>;
  \<^item> \<open>InvalidPrice\<close>: \<open>NFT does not have a valid price\<close>;
  \<^item> \<open>InsufficientBalance required available\<close>: \<open>Insufficient balance for NFT creation\<close>;
  \<^item> \<open>InvalidStatus\<close>: \<open>Invalid status\<close>;
  \<^item> \<open>StoreFailure\<close>: the \<open>catch\<close> block of the handler (a thrown store error, answered
    with \<open>handleDatabaseError\<close> or \<open>Internal server error\<close>).
\<close>

datatype error =
    NotFound
  | Forbidden
  | AlreadySold
  | AlreadyActive
  | Inactive
  | Expired
  | SelfBid
  | BidTooLow rat
  | AlreadyHighest
  | Unavailable
  | SelfPurchase
  | ActiveAuction
  | InvalidPrice
  | InsufficientBalance rat rat
  | InvalidStatus
  | StoreFailure

section \<open>The store\<close>

text \<open>
  A write either throws and leaves the table as it was, or appends or updates its row.
  The result of a store operation is the value or the error, paired with the store after it.
\<close>

definition transaction_create :: "Env \<Rightarrow> Transaction \<Rightarrow> State \<Rightarrow> (error + Transaction) \<times> State" where
  "transaction_create env t s =
     (if dbFails env TransactionCreate then (Inl StoreFailure, s)
      else (Inr t, s\<lparr>transactions := transactions s @ [t]\<rparr>))"

definition nFT_findUnique :: "string \<Rightarrow> State \<Rightarrow> NFT option" where
  "nFT_findUnique nid s = find (\<lambda>n. nft_id n = nid) (nfts s)"

definition nFT_create :: "Env \<Rightarrow> NFT \<Rightarrow> State \<Rightarrow> (error + NFT) \<times> State" where
  "nFT_create env n s =
     (if dbFails env NFTCreate then (Inl StoreFailure, s)
      else (Inr n, s\<lparr>nfts := nfts s @ [n]\<rparr>))"

text \<open>
  \<open>tx.nFT.update({ where: { id }, data })\<close>: throws when no row has the id (Prisma's P2025),
  otherwise rewrites the row and returns it.
\<close>

definition nFT_update :: "Env \<Rightarrow> string \<Rightarrow> (NFT \<Rightarrow> NFT) \<Rightarrow> State \<Rightarrow> (error + NFT) \<times> State" where
  "nFT_update env nid f s =
     (if dbFails env NFTUpdate then (Inl StoreFailure, s)
      else case nFT_findUnique nid s of
             None \<Rightarrow> (Inl StoreFailure, s)
           | Some n \<Rightarrow> (Inr (f n), s\<lparr>nfts := map (\<lambda>m. if nft_id m = nid then f m else m) (nfts s)\<rparr>))"

text \<open>
  \<open>db.$transaction\<close>: the writes of the body are kept when the body returns and are all
  discarded when it throws; the error is rethrown to the caller.
\<close>

definition db_transaction :: "(State \<Rightarrow> (error + 'a) \<times> State) \<Rightarrow> State \<Rightarrow> (error + 'a) \<times> State" where
  "db_transaction body s =
     (case body s of
        (Inl e, _) \<Rightarrow> (Inl e, s)
      | (Inr v, s') \<Rightarrow> (Inr v, s'))"

section \<open>Ledger aggregator\<close>

text \<open>
  \<open>db.transaction.aggregate({ where, _sum: { amount: true } })\<close>: \<open>_sum.amount\<close> is \<open>null\<close>
  when no row matches, otherwise the sum of the matching amounts.
\<close>

definition transaction_aggregate_sum :: "(Transaction \<Rightarrow> bool) \<Rightarrow> State \<Rightarrow> rat option" where
  "transaction_aggregate_sum wh s =
     (let rows = filter wh (transactions s)
      in if rows = [] then None else Some (sum_list (map tx_amount rows)))"

text \<open>\<open>x || 0\<close> on a nullable number: \<open>null\<close> and \<open>0\<close> both give \<open>0\<close>.\<close>

definition orZero :: "rat option \<Rightarrow> rat" where
  "orZero x = (case x of None \<Rightarrow> 0 | Some v \<Rightarrow> if v = 0 then 0 else v)"

text \<open>
  \<open>GET /api/users/[id]\<close>: \<open>walletCredits\<close> sums the DEPOSIT rows of the user,
  \<open>walletDebits\<close> the rows whose type is in \<open>['WITHDRAWAL', 'MINT']\<close>, and
  \<open>walletBalance = (walletCredits._sum.amount || 0) - (walletDebits._sum.amount || 0)\<close>.
\<close>

definition walletBalance :: "State \<Rightarrow> string \<Rightarrow> rat" where
  "walletBalance s uid =
     (let walletCredits = transaction_aggregate_sum (\<lambda>t. tx_userId t = uid \<and> tx_type t = DEPOSIT) s;
          walletDebits = transaction_aggregate_sum
                           (\<lambda>t. tx_userId t = uid \<and> tx_type t \<in> set [WITHDRAWAL, MINT]) s
      in orZero walletCredits - orZero walletDebits)"


text \<open>
  \<open>POST /api/nfts\<close> computes the balance from three aggregates:
  \<open>credits = creditsAgg._sum.amount || 0\<close>,
  \<open>debits = (withdrawalsAgg._sum.amount || 0) + (mintsAgg._sum.amount || 0)\<close>,
  \<open>availableBalance = credits - debits\<close>.
\<close>

definition availableBalance :: "State \<Rightarrow> string \<Rightarrow> rat" where
  "availableBalance s uid =
     (let creditsAgg = transaction_aggregate_sum (\<lambda>t. tx_userId t = uid \<and> tx_type t = DEPOSIT) s;
          withdrawalsAgg = transaction_aggregate_sum (\<lambda>t. tx_userId t = uid \<and> tx_type t = WITHDRAWAL) s;
          mintsAgg = transaction_aggregate_sum (\<lambda>t. tx_userId t = uid \<and> tx_type t = MINT) s;
          credits = orZero creditsAgg;
          debits = orZero withdrawalsAgg + orZero mintsAgg
      in credits - debits)"

text \<open>
  The balance as the specification writes it: the sum of the user's DEPOSIT amounts minus
  the sum of the WITHDRAWAL amounts minus the sum of the MINT amounts.
\<close>

definition sumOfType :: "State \<Rightarrow> string \<Rightarrow> TransactionType \<Rightarrow> rat" where
  "sumOfType s uid ty =
     sum_list (map tx_amount (filter (\<lambda>t. tx_userId t = uid \<and> tx_type t = ty) (transactions s)))"

definition spec_computeBalance :: "State \<Rightarrow> string \<Rightarrow> rat" where
  "spec_computeBalance s uid =
     sumOfType s uid DEPOSIT - sumOfType s uid WITHDRAWAL - sumOfType s uid MINT"

section \<open>Bidding\<close>




text \<open>
  \<open>auction.nft.owner\<close>: the user the NFT's \<open>ownerId\<close> refers to, \<open>null\<close> when the column is
  \<open>NULL\<close>. The foreign key of \<open>auctions.nftId\<close> (\<open>ON DELETE CASCADE\<close>) makes the NFT row
  exist; without the row the model reads no owner.
\<close>

definition nft_owner :: "State \<Rightarrow> string \<Rightarrow> string option" where
  "nft_owner s nid = (case nFT_findUnique nid s of None \<Rightarrow> None | Some n \<Rightarrow> nft_ownerId n)"






section \<open>Auction creation\<close>

text \<open>\<open>validateNFTOwnership(userId, nftId, isAdmin)\<close> of \<open>lib/auth\<close>.\<close>

definition validateNFTOwnership :: "State \<Rightarrow> string \<Rightarrow> string \<Rightarrow> bool \<Rightarrow> bool" where
  "validateNFTOwnership s uid nid admin =
     (if admin then True
      else case nFT_findUnique nid s of
             None \<Rightarrow> False
           | Some nft \<Rightarrow> nft_creatorId nft = uid \<or> nft_ownerId nft = Some uid)"

text \<open>
  \<open>db.auction.findFirst({ where: { nftId, isActive: true, endTime: { gt: now } } })\<close>.
\<close>

definition activeUnexpired :: "string \<Rightarrow> int \<Rightarrow> Auction \<Rightarrow> bool" where
  "activeUnexpired nid now a = (auc_nftId a = nid \<and> auc_isActive a \<and> now < auc_endTime a)"

definition auction_findFirst :: "string \<Rightarrow> int \<Rightarrow> State \<Rightarrow> Auction option" where
  "auction_findFirst nid now s = find (activeUnexpired nid now) (auctions s)"

definition auction_create :: "Env \<Rightarrow> Auction \<Rightarrow> State \<Rightarrow> (error + Auction) \<times> State" where
  "auction_create env a s =
     (if dbFails env AuctionCreate then (Inl StoreFailure, s)
      else (Inr a, s\<lparr>auctions := auctions s @ [a]\<rparr>))"

text \<open>\<open>new Date(x)\<close> on a number of milliseconds: the fraction is cut off.\<close>

definition newDate :: "rat \<Rightarrow> int" where
  "newDate x = (if 0 \<le> x then \<lfloor>x\<rfloor> else \<lceil>x\<rceil>)"

text \<open>
  \<open>POST /api/auctions\<close>, after authentication and \<open>auctionCreateSchema\<close>. The clock is read
  three times: for the search of a running auction, for \<open>endTime\<close> and for \<open>startTime\<close>.
\<close>

definition createAuction ::
  "Env \<Rightarrow> AuthUser \<Rightarrow> string \<Rightarrow> rat \<Rightarrow> rat option \<Rightarrow> rat \<Rightarrow> State \<Rightarrow> (error + Auction) \<times> State" where
  "createAuction env user nftId startingPrice reservePrice duration s =
     (case nFT_findUnique nftId s of
        None \<Rightarrow> (Inl NotFound, s)
      | Some nft \<Rightarrow>
          if \<not> validateNFTOwnership s (userId user) nftId (isAdmin user) then (Inl Forbidden, s)
          else if nft_isSold nft then (Inl AlreadySold, s)
          else (case auction_findFirst nftId (clock env 0) s of
                  Some existingAuction \<Rightarrow> (Inl AlreadyActive, s)
                | None \<Rightarrow>
                    (let endTime = newDate (of_int (clock env 1) + duration * 60 * 60 * 1000)
                     in auction_create env
                          \<lparr>auc_id = uuid env 0, auc_nftId = nftId, auc_sellerId = userId user,
                           auc_startPrice = startingPrice, auc_currentPrice = startingPrice,
                           auc_reservePrice = reservePrice, auc_startTime = clock env 2,
                           auc_endTime = endTime, auc_isActive = True\<rparr> s)))"



section \<open>Purchase settlement\<close>

text \<open>
  The body of the interactive transaction of \<open>POST /api/nfts/[id]/purchase\<close>: the SALE row
  (\<open>saleTransaction\<close> is its \<open>data\<close>), then the update of the NFT (\<open>soldTo\<close> is its \<open>data\<close>). A
  throw of the second write leaves the body with the first write done; \<open>db_transaction\<close> is
  what discards it.
\<close>

definition saleTransaction :: "Env \<Rightarrow> AuthUser \<Rightarrow> string \<Rightarrow> rat \<Rightarrow> Transaction" where
  "saleTransaction env user nftId price =
     \<lparr>tx_id = uuid env 0, tx_type = SALE, tx_amount = price, tx_userId = userId user,
      tx_nftId = Some nftId, tx_hash = uuid env 1\<rparr>"

definition soldTo :: "string \<Rightarrow> NFT \<Rightarrow> NFT" where
  "soldTo buyer n = n\<lparr>nft_ownerId := Some buyer, nft_isSold := True, nft_isListed := False\<rparr>"

definition purchaseBody ::
  "Env \<Rightarrow> AuthUser \<Rightarrow> string \<Rightarrow> rat \<Rightarrow> State \<Rightarrow> (error + Transaction \<times> NFT) \<times> State" where
  "purchaseBody env user nftId price s0 =
     (case transaction_create env (saleTransaction env user nftId price) s0 of
        (Inl e, s1) \<Rightarrow> (Inl e, s1)
      | (Inr transaction, s1) \<Rightarrow>
          (case nFT_update env nftId (soldTo (userId user)) s1 of
             (Inl e, s2) \<Rightarrow> (Inl e, s2)
           | (Inr updatedNFT, s2) \<Rightarrow> (Inr (transaction, updatedNFT), s2)))"

text \<open>
  \<open>POST /api/nfts/[id]/purchase\<close> after authentication. \<open>!nft.price || nft.price <= 0\<close>
  rejects a missing, zero or negative price. The sale notification is sent without being
  awaited; it is not part of the model.
\<close>

definition purchaseNFT ::
  "Env \<Rightarrow> AuthUser \<Rightarrow> string \<Rightarrow> State \<Rightarrow> (error + Transaction \<times> NFT) \<times> State" where
  "purchaseNFT env user nftId s =
     (case nFT_findUnique nftId s of
        None \<Rightarrow> (Inl NotFound, s)
      | Some nft \<Rightarrow>
          if \<not> nft_isListed nft \<or> nft_isSold nft then (Inl Unavailable, s)
          else if nft_ownerId nft = Some (userId user) then (Inl SelfPurchase, s)
          else (case auction_findFirst nftId (clock env 0) s of
                  Some activeAuction \<Rightarrow> (Inl ActiveAuction, s)
                | None \<Rightarrow>
                    (case nft_price nft of
                       None \<Rightarrow> (Inl InvalidPrice, s)
                     | Some price \<Rightarrow>
                         (if price = 0 \<or> price \<le> 0 then (Inl InvalidPrice, s)
                          else db_transaction (purchaseBody env user nftId price) s))))"

text \<open>A sequence of purchase requests, served one after the other.\<close>

fun purchaseAll :: "(Env \<times> AuthUser \<times> string) list \<Rightarrow> State \<Rightarrow> State" where
  "purchaseAll [] s = s"
| "purchaseAll ((env, user, nftId) # rs) s = purchaseAll rs (snd (purchaseNFT env user nftId s))"

section \<open>Minting\<close>

definition MINT_FEE :: rat where
  "MINT_FEE = 1 / 10"

text \<open>
  \<open>generateUniqueTokenId\<close> of \<open>lib/db\<close> draws random token ids until one is not taken. The
  draws are the list \<open>randomTokens\<close>; \<open>None\<close> means that every draw of the list was taken and
  the loop is still running.
\<close>

fun generateUniqueTokenId :: "State \<Rightarrow> string list \<Rightarrow> string option" where
  "generateUniqueTokenId s [] = None"
| "generateUniqueTokenId s (tokenId # draws) =
     (if find (\<lambda>n. nft_tokenId n = tokenId) (nfts s) \<noteq> None
      then generateUniqueTokenId s draws else Some tokenId)"

text \<open>
  The collection check of \<open>POST /api/nfts\<close>: \<open>if (collectionId)\<close> skips it for a missing or
  empty id; otherwise the collection must exist (404) and belong to the caller unless the
  caller is an admin (403).
\<close>

definition checkCollection :: "State \<Rightarrow> AuthUser \<Rightarrow> string option \<Rightarrow> error option" where
  "checkCollection s user collectionId =
     (case collectionId of
        None \<Rightarrow> None
      | Some cid \<Rightarrow>
          if cid = [] then None
          else (case find (\<lambda>c. col_id c = cid) (collections s) of
                  None \<Rightarrow> Some NotFound
                | Some collection \<Rightarrow>
                    (if col_creatorId collection \<noteq> userId user \<and> \<not> isAdmin user
                     then Some Forbidden else None)))"

text \<open>The batch \<open>db.$transaction([db.nFT.create(...), db.transaction.create(...)])\<close>.\<close>

definition mintBody ::
  "Env \<Rightarrow> NFT \<Rightarrow> Transaction \<Rightarrow> State \<Rightarrow> (error + NFT \<times> Transaction) \<times> State" where
  "mintBody env n t s0 =
     (case nFT_create env n s0 of
        (Inl e, s1) \<Rightarrow> (Inl e, s1)
      | (Inr nft, s1) \<Rightarrow>
          (case transaction_create env t s1 of
             (Inl e, s2) \<Rightarrow> (Inl e, s2)
           | (Inr mintTx, s2) \<Rightarrow> (Inr (nft, mintTx), s2)))"

text \<open>The \<open>data\<close> of the two creates of \<open>POST /api/nfts\<close>.\<close>

definition mintedNFT ::
  "Env \<Rightarrow> AuthUser \<Rightarrow> string \<Rightarrow> string \<Rightarrow> rat option \<Rightarrow> string option \<Rightarrow> NFT" where
  "mintedNFT env user tokenId name price collectionId =
     \<lparr>nft_id = uuid env 1, nft_tokenId = tokenId, nft_name = name,
      nft_price = price, nft_isListed = True, nft_isSold = False,
      nft_creatorId = userId user, nft_ownerId = Some (userId user),
      nft_collectionId = collectionId\<rparr>"

definition mintTransaction :: "Env \<Rightarrow> AuthUser \<Rightarrow> Transaction" where
  "mintTransaction env user =
     \<lparr>tx_id = uuid env 2, tx_type = MINT, tx_amount = MINT_FEE,
      tx_userId = userId user, tx_nftId = None, tx_hash = uuid env 0\<rparr>"

text \<open>
  \<open>POST /api/nfts\<close> after authentication and \<open>nftCreateSchema\<close>. The result is \<open>None\<close> when
  the token loop does not return.
\<close>

definition createNFT ::
  "Env \<Rightarrow> AuthUser \<Rightarrow> string \<Rightarrow> rat option \<Rightarrow> string option \<Rightarrow> State
     \<Rightarrow> ((error + NFT \<times> Transaction) \<times> State) option" where
  "createNFT env user name price collectionId s =
     (case checkCollection s user collectionId of
        Some e \<Rightarrow> Some (Inl e, s)
      | None \<Rightarrow>
          let balance = availableBalance s (userId user)
          in if balance < MINT_FEE then Some (Inl (InsufficientBalance MINT_FEE balance), s)
             else (case generateUniqueTokenId s (randomTokens env) of
                    None \<Rightarrow> None
                  | Some tokenId \<Rightarrow>
                      Some (db_transaction
                        (mintBody env (mintedNFT env user tokenId name price collectionId)
                           (mintTransaction env user)) s)))"

text \<open>
  Mint requests of one user served one after the other: the number of those answered with
  the created NFT, and the store at the end. A request whose token loop does not return
  changes nothing.
\<close>

fun mintAll :: "AuthUser \<Rightarrow> (Env \<times> string \<times> rat option \<times> string option) list \<Rightarrow> State \<Rightarrow> nat \<times> State" where
  "mintAll user [] s = (0, s)"
| "mintAll user ((env, name, price, collectionId) # rs) s =
     (case createNFT env user name price collectionId s of
        None \<Rightarrow> mintAll user rs s
      | Some (Inl e, s') \<Rightarrow> mintAll user rs s'
      | Some (Inr created, s') \<Rightarrow> (case mintAll user rs s' of (k, s'') \<Rightarrow> (Suc k, s'')))"

section \<open>Profit claims\<close>

text \<open>\<open>Math.max(0, (now.getTime() - last.getTime()) / 3600000)\<close>.\<close>

definition hoursSince :: "int \<Rightarrow> int \<Rightarrow> rat" where
  "hoursSince now lastClaim = max 0 (of_int (now - lastClaim) / 3600000)"

text \<open>\<open>Number(p.amountUSD || 0) * 0.10 * hours\<close>.\<close>

definition profitOf :: "int \<Rightarrow> StockPurchase \<Rightarrow> rat" where
  "profitOf now p =
     (if sp_amountUSD p = 0 then 0 else sp_amountUSD p) * (10 / 100)
       * hoursSince now (sp_lastProfitClaimAt p)"

text \<open>
  The loop over the purchases: it carries \<open>totalProfit\<close> and \<open>updates\<close>, and only a purchase
  of positive profit adds to either.
\<close>

fun accrue :: "int \<Rightarrow> StockPurchase list \<Rightarrow> rat \<times> string list \<Rightarrow> rat \<times> string list" where
  "accrue now [] acc = acc"
| "accrue now (p # ps) (totalProfit, updates) =
     (let profit = profitOf now p
      in if 0 < profit then accrue now ps (totalProfit + profit, updates @ [sp_id p])
         else accrue now ps (totalProfit, updates))"

text \<open>
  \<open>Number(x.toFixed(2))\<close>: the nearest multiple of \<open>0.01\<close>, the larger one on a tie, the sign
  handled apart; from \<open>1e21\<close> on \<open>toFixed\<close> prints the number itself.
\<close>

definition toFixed2 :: "rat \<Rightarrow> rat" where
  "toFixed2 x =
     (if 10 ^ 21 \<le> \<bar>x\<bar> then x
      else if x < 0 then - (of_int \<lfloor>- x * 100 + 1 / 2\<rfloor> / 100)
      else of_int \<lfloor>x * 100 + 1 / 2\<rfloor> / 100)"

definition stockPurchase_update :: "Env \<Rightarrow> string \<Rightarrow> int \<Rightarrow> State \<Rightarrow> (error + unit) \<times> State" where
  "stockPurchase_update env pid now s =
     (if dbFails env (StockPurchaseUpdate pid) then (Inl StoreFailure, s)
      else if find (\<lambda>p. sp_id p = pid) (stockPurchases s) = None then (Inl StoreFailure, s)
      else (Inr (),
            s\<lparr>stockPurchases :=
                 map (\<lambda>p. if sp_id p = pid then p\<lparr>sp_lastProfitClaimAt := now\<rparr> else p)
                   (stockPurchases s)\<rparr>))"

fun updateClaimed :: "Env \<Rightarrow> int \<Rightarrow> string list \<Rightarrow> State \<Rightarrow> (error + unit) \<times> State" where
  "updateClaimed env now [] s = (Inr (), s)"
| "updateClaimed env now (u # us) s =
     (case stockPurchase_update env u now s of
        (Inl e, s1) \<Rightarrow> (Inl e, s1)
      | (Inr _, s1) \<Rightarrow> updateClaimed env now us s1)"

text \<open>The \<open>data\<close> of the DEPOSIT row of a claim.\<close>

definition claimTransaction :: "Env \<Rightarrow> AuthUser \<Rightarrow> rat \<Rightarrow> Transaction" where
  "claimTransaction env user rounded =
     \<lparr>tx_id = uuid env 0, tx_type = DEPOSIT, tx_amount = rounded,
      tx_userId = userId user, tx_nftId = None, tx_hash = uuid env 1\<rparr>"

definition claimBody ::
  "Env \<Rightarrow> AuthUser \<Rightarrow> int \<Rightarrow> rat \<Rightarrow> string list \<Rightarrow> State \<Rightarrow> (error + unit) \<times> State" where
  "claimBody env user now rounded updates s0 =
     (case transaction_create env (claimTransaction env user rounded) s0 of
        (Inl e, s1) \<Rightarrow> (Inl e, s1)
      | (Inr _, s1) \<Rightarrow> updateClaimed env now updates s1)"

text \<open>
  \<open>POST /api/stocks/purchases/claim\<close> after authentication. The value returned on success is
  \<open>claimedUSD\<close>: \<open>0\<close> when there is nothing to claim, else \<open>totalProfit\<close>.
\<close>

definition claimProfit :: "Env \<Rightarrow> AuthUser \<Rightarrow> State \<Rightarrow> (error + rat) \<times> State" where
  "claimProfit env user s =
     (case find (\<lambda>u. u = userId user) (users s) of
        None \<Rightarrow> (Inl NotFound, s)
      | Some userRecord \<Rightarrow>
          let now = clock env 0;
              purchases = filter (\<lambda>p. sp_userId p = userId user) (stockPurchases s);
              (totalProfit, updates) = accrue now purchases (0, [])
          in if totalProfit \<le> 0 then (Inr 0, s)
             else
               let rounded = toFixed2 totalProfit
               in (case db_transaction (claimBody env user now rounded updates) s of
                     (Inl e, s') \<Rightarrow> (Inl e, s')
                   | (Inr _, s') \<Rightarrow> (Inr totalProfit, s')))"


text \<open>The purchases of a user that contribute to a claim: those of positive profit.\<close>

definition contributing :: "int \<Rightarrow> string \<Rightarrow> State \<Rightarrow> StockPurchase list" where
  "contributing now uid s =
     filter (\<lambda>p. 0 < profitOf now p) (filter (\<lambda>p. sp_userId p = uid) (stockPurchases s))"

text \<open>The purchase table after a claim at \<open>now\<close> that updated the rows with the ids \<open>us\<close>.\<close>

definition markClaimed :: "int \<Rightarrow> string list \<Rightarrow> StockPurchase list \<Rightarrow> StockPurchase list" where
  "markClaimed now us ps =
     map (\<lambda>p. if sp_id p \<in> set us then p\<lparr>sp_lastProfitClaimAt := now\<rparr> else p) ps"

section \<open>Withdrawal requests\<close>

definition statusOf :: "string \<Rightarrow> WithdrawalStatus" where
  "statusOf normalized = (if normalized = ''APPROVED'' then APPROVED else DENIED)"

definition withdrawalRequest_update ::
  "Env \<Rightarrow> string \<Rightarrow> WithdrawalStatus \<Rightarrow> State \<Rightarrow> (error + WithdrawalRequest) \<times> State" where
  "withdrawalRequest_update env rid st s =
     (if dbFails env WithdrawalRequestUpdate then (Inl StoreFailure, s)
      else case find (\<lambda>r. wr_id r = rid) (withdrawalRequests s) of
             None \<Rightarrow> (Inl StoreFailure, s)
           | Some r \<Rightarrow>
               (Inr (r\<lparr>wr_status := st\<rparr>),
                s\<lparr>withdrawalRequests :=
                     map (\<lambda>q. if wr_id q = rid then q\<lparr>wr_status := st\<rparr> else q)
                       (withdrawalRequests s)\<rparr>))"

text \<open>The \<open>data\<close> of the ledger row written on approval.\<close>

definition approvalTransaction :: "Env \<Rightarrow> WithdrawalRequest \<Rightarrow> Transaction" where
  "approvalTransaction env updated =
     \<lparr>tx_id = uuid env 1, tx_type = WITHDRAWAL, tx_amount = wr_amount updated,
      tx_userId = wr_userId updated, tx_nftId = None, tx_hash = uuid env 0\<rparr>"

text \<open>
  The admin \<open>PUT\<close> handler of a withdrawal request, after \<open>requireAdmin\<close>; \<open>normalized\<close> is
  the upper-cased status of the body. The row id of the ledger insert is the column default,
  taken here as a drawn identifier. The insert sits in its own \<open>try\<close>: when it throws, the
  error is logged and the handler goes on.
\<close>

definition adminUpdateWithdrawalRequest ::
  "Env \<Rightarrow> string \<Rightarrow> string \<Rightarrow> State \<Rightarrow> (error + WithdrawalRequest) \<times> State" where
  "adminUpdateWithdrawalRequest env rid normalized s =
     (if normalized \<notin> set [''APPROVED'', ''DENIED''] then (Inl InvalidStatus, s)
      else case withdrawalRequest_update env rid (statusOf normalized) s of
             (Inl e, s1) \<Rightarrow> (Inl e, s1)
           | (Inr updated, s1) \<Rightarrow>
               if normalized = ''APPROVED''
               then (case transaction_create env (approvalTransaction env updated) s1 of
                       (Inl e, s2) \<Rightarrow> (Inr updated, s2)
                     | (Inr _, s2) \<Rightarrow> (Inr updated, s2))
               else (Inr updated, s1))"

text \<open>
  \<open>PUT /api/user/withdrawal/request/[id]\<close> after \<open>requireAuth\<close>: the caller's own request
  is looked up, then its status is set. No ledger row is written.
\<close>

definition userUpdateWithdrawalRequest ::
  "Env \<Rightarrow> AuthUser \<Rightarrow> string \<Rightarrow> string \<Rightarrow> State \<Rightarrow> (error + WithdrawalRequest) \<times> State" where
  "userUpdateWithdrawalRequest env user rid normalized s =
     (if normalized \<notin> set [''APPROVED'', ''DENIED''] then (Inl InvalidStatus, s)
      else case find (\<lambda>r. wr_id r = rid \<and> wr_userId r = userId user) (withdrawalRequests s) of
             None \<Rightarrow> (Inl NotFound, s)
           | Some existing \<Rightarrow> withdrawalRequest_update env rid (statusOf normalized) s)"

text \<open>A request that is approved has a WITHDRAWAL row of its user and amount in the ledger.\<close>

definition hasLedgerEntry :: "State \<Rightarrow> WithdrawalRequest \<Rightarrow> bool" where
  "hasLedgerEntry s r =
     (find (\<lambda>t. tx_type t = WITHDRAWAL \<and> tx_userId t = wr_userId r \<and> tx_amount t = wr_amount r)
        (transactions s) \<noteq> None)"

section \<open>Stock purchases\<close>





section \<open>Example stores and requests\<close>

subsection \<open>Callers and environments\<close>

definition alice :: AuthUser where
  "alice = \<lparr>userId = ''alice'', isAdmin = False\<rparr>"

definition bob :: AuthUser where
  "bob = \<lparr>userId = ''bob'', isAdmin = False\<rparr>"


definition emptyState :: State where
  "emptyState =
     \<lparr>users = [], collections = [], nfts = [], transactions = [], auctions = [], bids = [],
      stockPurchases = [], withdrawalRequests = []\<rparr>"

text \<open>An environment whose store accepts every write.\<close>

definition healthyEnv :: "int \<Rightarrow> string list \<Rightarrow> Env" where
  "healthyEnv now ids =
     \<lparr>clock = (\<lambda>k. now), uuid = (\<lambda>k. if k < length ids then ids ! k else []),
      randomTokens = ids, dbFails = (\<lambda>w. False)\<rparr>"

text \<open>An environment whose store rejects exactly the write \<open>w\<close>.\<close>

definition failingEnv :: "int \<Rightarrow> string list \<Rightarrow> dbop \<Rightarrow> Env" where
  "failingEnv now ids w =
     \<lparr>clock = (\<lambda>k. now), uuid = (\<lambda>k. if k < length ids then ids ! k else []),
      randomTokens = ids, dbFails = (\<lambda>v. v = w)\<rparr>"

definition mkTx :: "string \<Rightarrow> TransactionType \<Rightarrow> rat \<Rightarrow> string \<Rightarrow> Transaction" where
  "mkTx i ty a u =
     \<lparr>tx_id = i, tx_type = ty, tx_amount = a, tx_userId = u, tx_nftId = None, tx_hash = i\<rparr>"

subsection \<open>A ledger\<close>


subsection \<open>A listed NFT and its purchase\<close>

text \<open>A store with one listed NFT of Alice, and Bob, who has no ledger row.\<close>

definition marketExample :: State where
  "marketExample =
     emptyState
       \<lparr>users := [''alice'', ''bob''],
        nfts := [\<lparr>nft_id = ''n1'', nft_tokenId = ''tok1'', nft_name = ''Sunrise'',
                  nft_price = Some 2, nft_isListed = True, nft_isSold = False,
                  nft_creatorId = ''alice'', nft_ownerId = Some ''alice'',
                  nft_collectionId = None\<rparr>],
        transactions := [mkTx ''t1'' DEPOSIT 1 ''alice'']\<rparr>"

text \<open>What Bob's purchase of that NFT writes.\<close>

definition saleExample :: Transaction where
  "saleExample = \<lparr>tx_id = ''x1'', tx_type = SALE, tx_amount = 2, tx_userId = ''bob'',
                   tx_nftId = Some ''n1'', tx_hash = ''x2''\<rparr>"

definition nftSoldExample :: NFT where
  "nftSoldExample = \<lparr>nft_id = ''n1'', nft_tokenId = ''tok1'', nft_name = ''Sunrise'',
                  nft_price = Some 2, nft_isListed = False, nft_isSold = True,
                  nft_creatorId = ''alice'', nft_ownerId = Some ''bob'',
                  nft_collectionId = None\<rparr>"

definition soldExample :: State where
  "soldExample = marketExample\<lparr>transactions := [mkTx ''t1'' DEPOSIT 1 ''alice'', saleExample],
                      nfts := [nftSoldExample]\<rparr>"

subsection \<open>An auction and two bids\<close>




subsection \<open>Auctions opened by the creator\<close>



subsection \<open>Mints against a balance of 1\<close>

definition depositExample :: State where
  "depositExample =
     emptyState
       \<lparr>users := [''alice''],
        transactions := [mkTx ''d1'' DEPOSIT (6 / 10) ''alice'', mkTx ''d2'' DEPOSIT (4 / 10) ''alice'']\<rparr>"

definition mintRequest :: "string \<Rightarrow> Env \<times> string \<times> rat option \<times> string option" where
  "mintRequest x = (healthyEnv 1000 [x @ ''-hash'', x @ ''-nft'', x @ ''-tx''], x, None, None)"

definition tenRequests :: "(Env \<times> string \<times> rat option \<times> string option) list" where
  "tenRequests = map mintRequest [''a'', ''b'', ''c'', ''d'', ''e'', ''f'', ''g'', ''h'', ''i'', ''j'']"

definition tenMinted :: State where
  "tenMinted = snd (mintAll alice tenRequests depositExample)"


subsection \<open>A stock purchase and its claim\<close>

definition acmePurchase :: "int \<Rightarrow> StockPurchase" where
  "acmePurchase claimedAt =
     \<lparr>sp_id = ''p1'', sp_userId = ''alice'', sp_symbol = ''ACME'', sp_amountUSD = 100,
      sp_priceUSD = 50, sp_shares = 2, sp_date = 0, sp_lastProfitClaimAt = claimedAt\<rparr>"

definition stocksExample :: State where
  "stocksExample = emptyState\<lparr>users := [''alice''], stockPurchases := [acmePurchase 0]\<rparr>"


subsection \<open>A withdrawal request\<close>

definition aliceRequest :: "WithdrawalStatus \<Rightarrow> WithdrawalRequest" where
  "aliceRequest st = \<lparr>wr_id = ''w1'', wr_userId = ''alice'', wr_amount = 50, wr_status = st\<rparr>"

definition withdrawalExample :: State where
  "withdrawalExample =
     emptyState
       \<lparr>users := [''alice''],
        transactions := [mkTx ''d1'' DEPOSIT 100 ''alice''],
        withdrawalRequests := [aliceRequest PENDING]\<rparr>"

definition approvedExample :: State where
  "approvedExample =
     withdrawalExample
       \<lparr>withdrawalRequests := [aliceRequest APPROVED],
        transactions := [mkTx ''d1'' DEPOSIT 100 ''alice'',
                         \<lparr>tx_id = ''t'', tx_type = WITHDRAWAL, tx_amount = 50, tx_userId = ''alice'',
                          tx_nftId = None, tx_hash = ''h''\<rparr>]\<rparr>"

section \<open>Properties of the ledger aggregator\<close>

lemma orZero_aggregate:
  "orZero (transaction_aggregate_sum wh s) = sum_list (map tx_amount (filter wh (transactions s)))"
  by (simp add: orZero_def transaction_aggregate_sum_def Let_def)

lemma sum_withdrawal_or_mint:
  "sum_list (map tx_amount (filter (\<lambda>t. tx_userId t = uid \<and> tx_type t \<in> set [WITHDRAWAL, MINT]) ts))
   = sum_list (map tx_amount (filter (\<lambda>t. tx_userId t = uid \<and> tx_type t = WITHDRAWAL) ts))
   + sum_list (map tx_amount (filter (\<lambda>t. tx_userId t = uid \<and> tx_type t = MINT) ts))"
  by (induction ts) auto

lemma availableBalance_spec: "availableBalance s uid = spec_computeBalance s uid"
  by (simp add: availableBalance_def spec_computeBalance_def sumOfType_def orZero_aggregate Let_def)

lemma walletBalance_spec: "walletBalance s uid = spec_computeBalance s uid"
  by (simp add: walletBalance_def spec_computeBalance_def sumOfType_def orZero_aggregate
      sum_withdrawal_or_mint Let_def del: set_simps)


lemma find_self: "x \<in> set xs \<Longrightarrow> find (\<lambda>u. u = x) xs = Some x"
  by (induction xs) auto




section \<open>Properties of purchase settlement\<close>

lemma purchaseBody_cases:
  "purchaseBody env user nftId price s0 =
     (let t = saleTransaction env user nftId price;
          s1 = s0\<lparr>transactions := transactions s0 @ [t]\<rparr>
      in if dbFails env TransactionCreate then (Inl StoreFailure, s0)
         else if dbFails env NFTUpdate then (Inl StoreFailure, s1)
         else case nFT_findUnique nftId s0 of
                None \<Rightarrow> (Inl StoreFailure, s1)
              | Some n \<Rightarrow> (Inr (t, soldTo (userId user) n),
                           s1\<lparr>nfts := map (\<lambda>m. if nft_id m = nftId then soldTo (userId user) m else m) (nfts s0)\<rparr>))"
  by (simp add: purchaseBody_def transaction_create_def nFT_update_def nFT_findUnique_def Let_def
      split: option.splits)

lemma purchaseNFT_error_unchanged:
  "fst (purchaseNFT env user nftId s) = Inl e \<Longrightarrow> snd (purchaseNFT env user nftId s) = s"
  by (auto simp: purchaseNFT_def db_transaction_def split: option.splits if_splits prod.splits sum.splits)

lemma purchaseNFT_success:
  assumes "purchaseNFT env user nftId s = (Inr (t, n), s')"
  shows "\<exists>nft price. nFT_findUnique nftId s = Some nft \<and> nft_price nft = Some price \<and> 0 < price
           \<and> nft_isListed nft \<and> \<not> nft_isSold nft \<and> nft_ownerId nft \<noteq> Some (userId user)
           \<and> auction_findFirst nftId (clock env 0) s = None
           \<and> \<not> dbFails env TransactionCreate \<and> \<not> dbFails env NFTUpdate
           \<and> t = saleTransaction env user nftId price \<and> n = soldTo (userId user) nft
           \<and> s' = s\<lparr>transactions := transactions s @ [t],
                     nfts := map (\<lambda>m. if nft_id m = nftId then soldTo (userId user) m else m) (nfts s)\<rparr>"
  using assms
  by (auto simp: purchaseNFT_def db_transaction_def purchaseBody_cases Let_def
      split: option.splits if_splits)

lemma purchaseNFT_accepts:
  assumes "nFT_findUnique nftId s = Some nft" "nft_price nft = Some price" "0 < price"
    "nft_isListed nft" "\<not> nft_isSold nft" "nft_ownerId nft \<noteq> Some (userId user)"
    "auction_findFirst nftId (clock env 0) s = None"
  shows "purchaseNFT env user nftId s =
     (if dbFails env TransactionCreate \<or> dbFails env NFTUpdate then (Inl StoreFailure, s)
      else (Inr (saleTransaction env user nftId price, soldTo (userId user) nft),
            s\<lparr>transactions := transactions s @ [saleTransaction env user nftId price],
              nfts := map (\<lambda>m. if nft_id m = nftId then soldTo (userId user) m else m) (nfts s)\<rparr>))"
  using assms
  by (auto simp: purchaseNFT_def db_transaction_def purchaseBody_cases Let_def)

lemma find_map_keep:
  assumes "\<And>m. nft_id (g m) = nft_id m"
  shows "find (\<lambda>n. nft_id n = nid) (map (\<lambda>m. if nft_id m = k then g m else m) xs)
         = map_option (\<lambda>m. if nft_id m = k then g m else m) (find (\<lambda>n. nft_id n = nid) xs)"
  by (induction xs) (auto simp: assms)

lemma soldTo_id: "nft_id (soldTo b m) = nft_id m"
  by (simp add: soldTo_def)

lemma purchaseNFT_keeps_sold:
  assumes "nFT_findUnique nid s = Some n" "nft_isSold n"
  shows "\<exists>n'. nFT_findUnique nid (snd (purchaseNFT env user k s)) = Some n' \<and> nft_isSold n'"
proof (cases "fst (purchaseNFT env user k s)")
  case (Inl e)
  then show ?thesis using assms purchaseNFT_error_unchanged by metis
next
  case (Inr r)
  obtain t m where r: "r = (t, m)" by (cases r)
  from Inr r have "purchaseNFT env user k s = (Inr (t, m), snd (purchaseNFT env user k s))"
    by (simp add: prod_eq_iff)
  from purchaseNFT_success [OF this] assms show ?thesis
    by (auto simp: nFT_findUnique_def find_map_keep soldTo_id soldTo_def)
qed

lemma purchaseAll_keeps_sold:
  "nFT_findUnique nid s = Some n \<Longrightarrow> nft_isSold n \<Longrightarrow>
     \<exists>n'. nFT_findUnique nid (purchaseAll rs s) = Some n' \<and> nft_isSold n'"
proof (induction rs arbitrary: s n)
  case Nil
  then show ?case by simp
next
  case (Cons r rs)
  obtain env user k where r: "r = (env, user, k)" by (cases r)
  from purchaseNFT_keeps_sold [OF Cons.prems, of env user k]
  obtain n1 where "nFT_findUnique nid (snd (purchaseNFT env user k s)) = Some n1" "nft_isSold n1"
    by blast
  from Cons.IH [OF this] show ?case by (simp add: r)
qed

lemma purchaseNFT_sold_rejected:
  "nFT_findUnique nid s = Some n \<Longrightarrow> nft_isSold n \<Longrightarrow> purchaseNFT env user nid s = (Inl Unavailable, s)"
  by (simp add: purchaseNFT_def)

lemma purchaseNFT_fails_when_write_fails:
  "dbFails env TransactionCreate \<or> dbFails env NFTUpdate \<Longrightarrow>
     \<exists>e. purchaseNFT env user nftId s = (Inl e, s)"
  by (auto simp: purchaseNFT_def db_transaction_def purchaseBody_cases Let_def
      split: option.splits)

lemma purchaseBody_partial:
  "\<not> dbFails env TransactionCreate \<Longrightarrow> dbFails env NFTUpdate \<Longrightarrow>
     purchaseBody env user nftId price s
       = (Inl StoreFailure, s\<lparr>transactions := transactions s @ [saleTransaction env user nftId price]\<rparr>)"
  by (simp add: purchaseBody_cases Let_def)

lemma purchase_example_ok:
  "purchaseNFT (healthyEnv 1000 [''x1'', ''x2'']) bob ''n1'' marketExample
     = (Inr (saleExample, nftSoldExample), soldExample)"
  by (simp add: purchaseNFT_def nFT_findUnique_def auction_findFirst_def db_transaction_def
        purchaseBody_cases Let_def saleTransaction_def soldTo_def bob_def healthyEnv_def
        marketExample_def emptyState_def mkTx_def saleExample_def nftSoldExample_def soldExample_def)

lemma purchase_example_fail:
  "purchaseNFT (failingEnv 1000 [''x1'', ''x2''] NFTUpdate) bob ''n1'' marketExample
     = (Inl StoreFailure, marketExample)"
  by (simp add: purchaseNFT_def nFT_findUnique_def auction_findFirst_def db_transaction_def
        purchaseBody_cases Let_def saleTransaction_def soldTo_def bob_def failingEnv_def
        marketExample_def emptyState_def mkTx_def)

lemma purchaseNFT_ledger_independent:
  "fst (purchaseNFT env user nftId (s\<lparr>transactions := ts\<rparr>)) = fst (purchaseNFT env user nftId s)"
  by (simp add: purchaseNFT_def nFT_findUnique_def auction_findFirst_def db_transaction_def
        purchaseBody_cases Let_def split: option.splits)

lemma sumOfType_append_other:
  "tx_type t \<noteq> ty \<Longrightarrow> sumOfType (s\<lparr>transactions := transactions s @ [t], nfts := ns\<rparr>) uid ty = sumOfType s uid ty"
  by (simp add: sumOfType_def)

lemma purchaseNFT_balance:
  "spec_computeBalance (snd (purchaseNFT env user nftId s)) uid = spec_computeBalance s uid"
proof (cases "fst (purchaseNFT env user nftId s)")
  case (Inl e)
  then show ?thesis by (simp add: purchaseNFT_error_unchanged)
next
  case (Inr p)
  obtain t n where p: "p = (t, n)" by (cases p)
  from Inr p have "purchaseNFT env user nftId s = (Inr (t, n), snd (purchaseNFT env user nftId s))"
    by (simp add: prod_eq_iff)
  from purchaseNFT_success [OF this]
  obtain price where t: "t = saleTransaction env user nftId price"
    and s': "snd (purchaseNFT env user nftId s) = s\<lparr>transactions := transactions s @ [t],
                     nfts := map (\<lambda>m. if nft_id m = nftId then soldTo (userId user) m else m) (nfts s)\<rparr>"
    by blast
  have "tx_type t = SALE" by (simp add: t saleTransaction_def)
  then show ?thesis
    by (simp add: s' spec_computeBalance_def sumOfType_append_other)
qed

lemma purchaseNFT_no_balance_error:
  "fst (purchaseNFT env user nftId s) \<noteq> Inl (InsufficientBalance a b)"
  by (simp add: purchaseNFT_def db_transaction_def purchaseBody_cases Let_def split: option.splits)

text \<open>
  C2. A purchase either answers with an error and leaves the store exactly as it was, or
  answers with the SALE row and the updated NFT, and then the store has gained exactly that
  row (type SALE, the NFT, the buyer, the NFT's price) and the NFT has the buyer as owner,
  \<open>isSold\<close> set and \<open>isListed\<close> cleared. When the store rejects either write the caller gets
  an error and nothing is kept, although the body of the transaction had already written
  the SALE row when the update of the NFT was rejected.
\<close>

theorem settlement_atomic:
  "purchaseNFT env user nftId s = (r, s') \<Longrightarrow>
     (case r of
        Inl e \<Rightarrow> s' = s
      | Inr (t, n) \<Rightarrow>
          tx_type t = SALE \<and> tx_nftId t = Some nftId \<and> tx_userId t = userId user
          \<and> (\<exists>nft. nFT_findUnique nftId s = Some nft \<and> nft_price nft = Some (tx_amount t)
                  \<and> n = soldTo (userId user) nft)
          \<and> nFT_findUnique nftId s' = Some n
          \<and> nft_ownerId n = Some (userId user) \<and> nft_isSold n \<and> \<not> nft_isListed n
          \<and> s' = s\<lparr>transactions := transactions s @ [t],
                    nfts := map (\<lambda>m. if nft_id m = nftId then soldTo (userId user) m else m) (nfts s)\<rparr>)
     \<and> (dbFails env TransactionCreate \<or> dbFails env NFTUpdate \<longrightarrow> (\<exists>e. r = Inl e) \<and> s' = s)
     \<and> (\<not> dbFails env TransactionCreate \<and> dbFails env NFTUpdate \<longrightarrow>
          snd (purchaseBody env user nftId price s)
            = s\<lparr>transactions := transactions s @ [saleTransaction env user nftId price]\<rparr>)"
proof -
  assume run: "purchaseNFT env user nftId s = (r, s')"
  have first: "case r of
        Inl e \<Rightarrow> s' = s
      | Inr (t, n) \<Rightarrow>
          tx_type t = SALE \<and> tx_nftId t = Some nftId \<and> tx_userId t = userId user
          \<and> (\<exists>nft. nFT_findUnique nftId s = Some nft \<and> nft_price nft = Some (tx_amount t)
                  \<and> n = soldTo (userId user) nft)
          \<and> nFT_findUnique nftId s' = Some n
          \<and> nft_ownerId n = Some (userId user) \<and> nft_isSold n \<and> \<not> nft_isListed n
          \<and> s' = s\<lparr>transactions := transactions s @ [t],
                    nfts := map (\<lambda>m. if nft_id m = nftId then soldTo (userId user) m else m) (nfts s)\<rparr>"
  proof (cases r)
    case (Inl e)
    with run purchaseNFT_error_unchanged [of env user nftId s e] show ?thesis by simp
  next
    case (Inr p)
    obtain t n where p: "p = (t, n)" by (cases p)
    from run Inr p have "purchaseNFT env user nftId s = (Inr (t, n), s')" by simp
    from purchaseNFT_success [OF this]
    obtain nft price' where f: "nFT_findUnique nftId s = Some nft" "nft_price nft = Some price'"
      and t: "t = saleTransaction env user nftId price'" and n: "n = soldTo (userId user) nft"
      and s': "s' = s\<lparr>transactions := transactions s @ [t],
                     nfts := map (\<lambda>m. if nft_id m = nftId then soldTo (userId user) m else m) (nfts s)\<rparr>"
      by blast
    from f have fid: "nft_id nft = nftId"
      by (auto simp: nFT_findUnique_def find_Some_iff)
    have "nFT_findUnique nftId s' = Some n"
      using f fid by (simp add: s' n nFT_findUnique_def find_map_keep soldTo_id)
    with f t n s' Inr p show ?thesis
      by (simp add: saleTransaction_def soldTo_def)
  qed
  have second: "dbFails env TransactionCreate \<or> dbFails env NFTUpdate \<longrightarrow> (\<exists>e. r = Inl e) \<and> s' = s"
    using run purchaseNFT_fails_when_write_fails [of env user nftId s] by auto
  have third: "\<not> dbFails env TransactionCreate \<and> dbFails env NFTUpdate \<longrightarrow>
          snd (purchaseBody env user nftId price s)
            = s\<lparr>transactions := transactions s @ [saleTransaction env user nftId price]\<rparr>"
    by (simp add: purchaseBody_partial)
  from first second third show ?thesis by blast
qed

theorem settlement_atomic_witness:
  "purchaseNFT (healthyEnv 1000 [''x1'', ''x2'']) bob ''n1'' marketExample
     = (Inr (saleExample, nftSoldExample), soldExample)
   \<and> tx_type saleExample = SALE \<and> tx_nftId saleExample = Some ''n1''
   \<and> nFT_findUnique ''n1'' soldExample = Some nftSoldExample
   \<and> nft_ownerId nftSoldExample = Some ''bob'' \<and> nft_isSold nftSoldExample
   \<and> transactions soldExample = transactions marketExample @ [saleExample]
   \<and> dbFails (failingEnv 1000 [''x1'', ''x2''] NFTUpdate) NFTUpdate
   \<and> purchaseNFT (failingEnv 1000 [''x1'', ''x2''] NFTUpdate) bob ''n1'' marketExample
       = (Inl StoreFailure, marketExample)
   \<and> transactions (snd (purchaseBody (failingEnv 1000 [''x1'', ''x2''] NFTUpdate) bob ''n1'' 2 marketExample))
       = transactions marketExample @ [saleExample]"
proof -
  have f: "dbFails (failingEnv 1000 [''x1'', ''x2''] NFTUpdate) NFTUpdate"
    "\<not> dbFails (failingEnv 1000 [''x1'', ''x2''] NFTUpdate) TransactionCreate"
    by (simp_all add: failingEnv_def)
  have s: "saleTransaction (failingEnv 1000 [''x1'', ''x2''] NFTUpdate) bob ''n1'' 2 = saleExample"
    by (simp add: saleTransaction_def failingEnv_def bob_def saleExample_def)
  have u: "userId bob = ''bob''" by (simp add: bob_def)
  note ok = settlement_atomic [OF purchase_example_ok, where price = 2]
  from ok have a: "tx_type saleExample = SALE" "tx_nftId saleExample = Some ''n1''"
    "nFT_findUnique ''n1'' soldExample = Some nftSoldExample"
    "nft_ownerId nftSoldExample = Some ''bob''" "nft_isSold nftSoldExample"
    by (simp_all add: u)
  from ok have eq: "soldExample = marketExample
         \<lparr>transactions := transactions marketExample @ [saleExample],
          nfts := map (\<lambda>m. if nft_id m = ''n1'' then soldTo (userId bob) m else m)
                   (nfts marketExample)\<rparr>"
    by simp
  have c: "transactions soldExample = transactions marketExample @ [saleExample]"
    by (subst eq) simp
  from settlement_atomic [OF purchase_example_fail, where price = 2] f s
  have b: "snd (purchaseBody (failingEnv 1000 [''x1'', ''x2''] NFTUpdate) bob ''n1'' 2 marketExample)
       = marketExample\<lparr>transactions := transactions marketExample @ [saleExample]\<rparr>"
    by simp
  from a b c f purchase_example_ok purchase_example_fail show ?thesis by simp
qed

text \<open>
  C8. After a purchase of an NFT has settled, the NFT is sold and unlisted, and every later
  purchase attempt for it, by anyone, directly or after any number of other purchase
  requests, is answered with \<open>Unavailable\<close> and leaves the store unchanged.
\<close>

theorem purchase_then_unavailable:
  "purchaseNFT env user nftId s = (Inr r, s1) \<Longrightarrow>
     (\<exists>n. nFT_findUnique nftId s1 = Some n \<and> nft_isSold n \<and> \<not> nft_isListed n)
     \<and> purchaseNFT env' user' nftId s1 = (Inl Unavailable, s1)
     \<and> purchaseNFT env' user' nftId (purchaseAll rs s1) = (Inl Unavailable, purchaseAll rs s1)"
proof -
  assume run: "purchaseNFT env user nftId s = (Inr r, s1)"
  obtain t n where r: "r = (t, n)" by (cases r)
  from purchaseNFT_success [of env user nftId s t n s1] run r
  obtain nft where n: "n = soldTo (userId user) nft" and f: "nFT_findUnique nftId s = Some nft"
    and s1: "s1 = s\<lparr>transactions := transactions s @ [t],
                     nfts := map (\<lambda>m. if nft_id m = nftId then soldTo (userId user) m else m) (nfts s)\<rparr>"
    by auto
  from f have fid: "nft_id nft = nftId"
    by (auto simp: nFT_findUnique_def find_Some_iff)
  have found: "nFT_findUnique nftId s1 = Some n"
    using f fid by (simp add: s1 n nFT_findUnique_def find_map_keep soldTo_id)
  have sold: "nft_isSold n" "\<not> nft_isListed n" by (simp_all add: n soldTo_def)
  from purchaseAll_keeps_sold [OF found sold(1), of rs]
  obtain n' where "nFT_findUnique nftId (purchaseAll rs s1) = Some n'" "nft_isSold n'" by blast
  then have later: "purchaseNFT env' user' nftId (purchaseAll rs s1) = (Inl Unavailable, purchaseAll rs s1)"
    by (rule purchaseNFT_sold_rejected)
  have now: "purchaseNFT env' user' nftId s1 = (Inl Unavailable, s1)"
    using found sold(1) by (rule purchaseNFT_sold_rejected)
  from found sold later now show ?thesis by blast
qed

theorem purchase_then_unavailable_witness:
  "purchaseNFT (healthyEnv 1000 [''x1'', ''x2'']) bob ''n1'' marketExample
     = (Inr (saleExample, nftSoldExample), soldExample)
   \<and> purchaseNFT (healthyEnv 2000 [''y1'', ''y2'']) \<lparr>userId = ''carol'', isAdmin = False\<rparr> ''n1'' soldExample
       = (Inl Unavailable, soldExample)
   \<and> purchaseNFT (healthyEnv 3000 [''z1'', ''z2'']) \<lparr>userId = ''alice'', isAdmin = True\<rparr> ''n1''
         (purchaseAll [(healthyEnv 2000 [''y1'', ''y2''], \<lparr>userId = ''carol'', isAdmin = False\<rparr>, ''n1'')]
            soldExample)
       = (Inl Unavailable, soldExample)"
proof -
  note first = purchase_then_unavailable [OF purchase_example_ok,
      of "healthyEnv 2000 [''y1'', ''y2'']" "\<lparr>userId = ''carol'', isAdmin = False\<rparr>" "[]"]
  note later = purchase_then_unavailable [OF purchase_example_ok,
      of "healthyEnv 3000 [''z1'', ''z2'']" "\<lparr>userId = ''alice'', isAdmin = True\<rparr>"
         "[(healthyEnv 2000 [''y1'', ''y2''], \<lparr>userId = ''carol'', isAdmin = False\<rparr>, ''n1'')]"]
  from first have a: "purchaseNFT (healthyEnv 2000 [''y1'', ''y2'']) \<lparr>userId = ''carol'', isAdmin = False\<rparr>
      ''n1'' soldExample = (Inl Unavailable, soldExample)"
    by simp
  then have b: "purchaseAll [(healthyEnv 2000 [''y1'', ''y2''], \<lparr>userId = ''carol'', isAdmin = False\<rparr>, ''n1'')]
      soldExample = soldExample"
    by simp
  from later b have c: "purchaseNFT (healthyEnv 3000 [''z1'', ''z2'']) \<lparr>userId = ''alice'', isAdmin = True\<rparr> ''n1''
      soldExample = (Inl Unavailable, soldExample)"
    by simp
  from a b c purchase_example_ok show ?thesis by simp
qed

text \<open>
  C9. The outcome of a purchase does not depend on the ledger: replacing the transaction
  table by any other gives the same answer, and the answer is never an insufficient-funds
  error. The balance of every user, computed by either formula, is the same after the
  purchase as before it: the SALE row does not enter it.
\<close>

theorem purchase_ignores_balance:
  "fst (purchaseNFT env user nftId (s\<lparr>transactions := ts\<rparr>)) = fst (purchaseNFT env user nftId s)
   \<and> fst (purchaseNFT env user nftId s) \<noteq> Inl (InsufficientBalance a b)
   \<and> availableBalance (snd (purchaseNFT env user nftId s)) uid = availableBalance s uid
   \<and> walletBalance (snd (purchaseNFT env user nftId s)) uid = walletBalance s uid"
  by (simp only: purchaseNFT_ledger_independent purchaseNFT_no_balance_error purchaseNFT_balance
        availableBalance_spec walletBalance_spec simp_thms)

theorem purchase_ignores_balance_witness:
  "availableBalance marketExample ''bob'' = 0
   \<and> fst (purchaseNFT (healthyEnv 1000 [''x1'', ''x2'']) bob ''n1'' marketExample)
       = Inr (saleExample, nftSoldExample)
   \<and> fst (purchaseNFT (healthyEnv 1000 [''x1'', ''x2'']) bob ''n1''
           (marketExample\<lparr>transactions := [mkTx ''w'' WITHDRAWAL 50 ''bob'']\<rparr>))
       = Inr (saleExample, nftSoldExample)
   \<and> availableBalance soldExample ''bob'' = 0
   \<and> walletBalance soldExample ''bob'' = 0"
proof -
  have z: "availableBalance marketExample ''bob'' = 0" "walletBalance marketExample ''bob'' = 0"
    by (simp_all add: availableBalance_spec walletBalance_spec spec_computeBalance_def sumOfType_def
        marketExample_def emptyState_def mkTx_def)
  note th = purchase_ignores_balance [where env = "healthyEnv 1000 [''x1'', ''x2'']" and user = bob
      and nftId = "''n1''" and s = marketExample and ts = "[mkTx ''w'' WITHDRAWAL 50 ''bob'']"
      and a = 0 and b = 0 and uid = "''bob''"]
  from th z purchase_example_ok show ?thesis by simp
qed

section \<open>Properties of bidding\<close>











section \<open>Properties of auction creation\<close>

lemma createAuction_success:
  assumes "createAuction env user nftId sp rp d s = (Inr a, s')"
  shows "\<exists>nft. nFT_findUnique nftId s = Some nft \<and> \<not> nft_isSold nft
           \<and> (isAdmin user \<or> nft_creatorId nft = userId user \<or> nft_ownerId nft = Some (userId user))
           \<and> auction_findFirst nftId (clock env 0) s = None
           \<and> \<not> dbFails env AuctionCreate
           \<and> a = \<lparr>auc_id = uuid env 0, auc_nftId = nftId, auc_sellerId = userId user,
                   auc_startPrice = sp, auc_currentPrice = sp, auc_reservePrice = rp,
                   auc_startTime = clock env 2,
                   auc_endTime = newDate (of_int (clock env 1) + d * 60 * 60 * 1000),
                   auc_isActive = True\<rparr>
           \<and> s' = s\<lparr>auctions := auctions s @ [a]\<rparr>"
  using assms
  by (auto simp: createAuction_def validateNFTOwnership_def auction_create_def Let_def
      split: option.splits if_splits)






text \<open>
  On a store where the unsold NFT is owned by its creator, as after a mint, whoever opens an
  auction on it is its owner or an admin.
\<close>

lemma createAuction_by_owner:
  assumes "createAuction env user nftId sp rp d s = (Inr a, s')"
    and "\<And>n. nFT_findUnique nftId s = Some n \<Longrightarrow> \<not> nft_isSold n
           \<Longrightarrow> nft_ownerId n = Some (nft_creatorId n)"
  shows "isAdmin user \<or> nft_owner s nftId = Some (userId user)"
proof -
  from createAuction_success [OF assms(1)]
  obtain nft where n: "nFT_findUnique nftId s = Some nft" "\<not> nft_isSold nft"
    "isAdmin user \<or> nft_creatorId nft = userId user \<or> nft_ownerId nft = Some (userId user)"
    by blast
  from assms(2) [OF n(1) n(2)] n show ?thesis
    by (auto simp: nft_owner_def)
qed






section \<open>Properties of minting\<close>

lemma mintBody_cases:
  "mintBody env n t s =
     (if dbFails env NFTCreate then (Inl StoreFailure, s)
      else if dbFails env TransactionCreate then (Inl StoreFailure, s\<lparr>nfts := nfts s @ [n]\<rparr>)
      else (Inr (n, t), s\<lparr>nfts := nfts s @ [n], transactions := transactions s @ [t]\<rparr>))"
  by (simp add: mintBody_def nFT_create_def transaction_create_def)

lemma mint_atomic:
  "db_transaction (mintBody env n t) s =
     (if dbFails env NFTCreate \<or> dbFails env TransactionCreate then (Inl StoreFailure, s)
      else (Inr (n, t), s\<lparr>nfts := nfts s @ [n], transactions := transactions s @ [t]\<rparr>))"
  by (simp add: db_transaction_def mintBody_cases)









lemma mint_eval_ten_rows: "length (nfts tenMinted) = 10 \<and> length (transactions tenMinted) = 12"
  by (simp add: tenMinted_def tenRequests_def mintRequest_def depositExample_def emptyState_def mkTx_def
      createNFT_def checkCollection_def availableBalance_spec spec_computeBalance_def sumOfType_def
      MINT_FEE_def mint_atomic mintedNFT_def mintTransaction_def healthyEnv_def alice_def Let_def)







section \<open>Properties of profit claims\<close>


lemma accrue_sum:
  "accrue now ps (tp, us) =
     (tp + sum_list (map (profitOf now) (filter (\<lambda>p. 0 < profitOf now p) ps)),
      us @ map sp_id (filter (\<lambda>p. 0 < profitOf now p) ps))"
  by (induction ps arbitrary: tp us) (simp_all add: Let_def)

lemma accrue_contributing:
  "accrue now (filter (\<lambda>p. sp_userId p = uid) (stockPurchases s)) (0, [])
     = (sum_list (map (profitOf now) (contributing now uid s)), map sp_id (contributing now uid s))"
  by (simp add: accrue_sum contributing_def)




lemma find_id_None: "find (\<lambda>p. sp_id p = pid) ps = None \<longleftrightarrow> pid \<notin> sp_id ` set ps"
  by (auto simp: find_None_iff)

lemma markClaimed_ids: "sp_id ` set (markClaimed now us ps) = sp_id ` set ps"
  by (induction ps) (auto simp: markClaimed_def)

lemma markClaimed_step:
  "markClaimed now us (map (\<lambda>p. if sp_id p = u then p\<lparr>sp_lastProfitClaimAt := now\<rparr> else p) ps)
     = markClaimed now (u # us) ps"
  by (induction ps) (auto simp: markClaimed_def)

lemma updateClaimed_ok:
  "\<forall>u \<in> set us. \<not> dbFails env (StockPurchaseUpdate u) \<and> u \<in> sp_id ` set (stockPurchases s) \<Longrightarrow>
     updateClaimed env now us s
       = (Inr (), s\<lparr>stockPurchases := markClaimed now us (stockPurchases s)\<rparr>)"
proof (induction us arbitrary: s)
  case Nil
  then show ?case by (simp add: markClaimed_def)
next
  case (Cons u us)
  let ?s1 = "s\<lparr>stockPurchases :=
                 map (\<lambda>p. if sp_id p = u then p\<lparr>sp_lastProfitClaimAt := now\<rparr> else p) (stockPurchases s)\<rparr>"
  from Cons.prems have step: "stockPurchase_update env u now s = (Inr (), ?s1)"
    by (simp add: stockPurchase_update_def find_id_None)
  have ids: "sp_id ` set (stockPurchases ?s1) = sp_id ` set (stockPurchases s)"
    using markClaimed_ids [of now "[u]" "stockPurchases s"] by (simp add: markClaimed_def)
  with Cons.prems have "\<forall>v \<in> set us. \<not> dbFails env (StockPurchaseUpdate v) \<and> v \<in> sp_id ` set (stockPurchases ?s1)"
    by simp
  from Cons.IH [OF this] step show ?case
    by (simp add: markClaimed_step)
qed

lemma updateClaimed_fail:
  "\<exists>u \<in> set us. dbFails env (StockPurchaseUpdate u) \<Longrightarrow>
     \<exists>s1. updateClaimed env now us s = (Inl StoreFailure, s1)"
proof (induction us arbitrary: s)
  case Nil
  then show ?case by simp
next
  case (Cons u us)
  show ?case
  proof (cases "fst (stockPurchase_update env u now s)")
    case (Inl e)
    then show ?thesis
      by (auto simp: stockPurchase_update_def split: if_splits)
  next
    case (Inr x)
    then have ok: "\<not> dbFails env (StockPurchaseUpdate u)"
      by (auto simp: stockPurchase_update_def split: if_splits)
    with Cons.prems have "\<exists>v \<in> set us. dbFails env (StockPurchaseUpdate v)" by auto
    from Cons.IH [OF this] Inr show ?thesis
      by (cases "stockPurchase_update env u now s") auto
  qed
qed

lemma contributing_ids: "set (map sp_id (contributing now uid s)) \<subseteq> sp_id ` set (stockPurchases s)"
  by (auto simp: contributing_def)

lemma claimBody_cases:
  "claimBody env user now rounded us s =
     (if dbFails env TransactionCreate then (Inl StoreFailure, s)
      else updateClaimed env now us (s\<lparr>transactions := transactions s @ [claimTransaction env user rounded]\<rparr>))"
  by (simp add: claimBody_def transaction_create_def)

lemma claim_atomic:
  assumes "set us \<subseteq> sp_id ` set (stockPurchases s)"
  shows "db_transaction (claimBody env user now rounded us) s =
     (if dbFails env TransactionCreate \<or> (\<exists>u \<in> set us. dbFails env (StockPurchaseUpdate u))
      then (Inl StoreFailure, s)
      else (Inr (), s\<lparr>transactions := transactions s @ [claimTransaction env user rounded],
                      stockPurchases := markClaimed now us (stockPurchases s)\<rparr>))"
proof (cases "dbFails env TransactionCreate")
  case True
  then show ?thesis by (simp add: db_transaction_def claimBody_cases)
next
  case False
  let ?s1 = "s\<lparr>transactions := transactions s @ [claimTransaction env user rounded]\<rparr>"
  show ?thesis
  proof (cases "\<exists>u \<in> set us. dbFails env (StockPurchaseUpdate u)")
    case True
    from updateClaimed_fail [OF True, of now ?s1] False True show ?thesis
      by (auto simp: db_transaction_def claimBody_cases)
  next
    case nofail: False
    with assms have "\<forall>u \<in> set us. \<not> dbFails env (StockPurchaseUpdate u) \<and> u \<in> sp_id ` set (stockPurchases ?s1)"
      by auto
    from updateClaimed_ok [OF this, of now] False nofail show ?thesis
      by (simp add: db_transaction_def claimBody_cases)
  qed
qed

lemma claimProfit_cases:
  assumes "userId user \<in> set (users s)"
  shows "claimProfit env user s =
     (let now = clock env 0;
          cs = contributing now (userId user) s;
          total = sum_list (map (profitOf now) cs);
          ids = map sp_id cs
      in if total \<le> 0 then (Inr 0, s)
         else if dbFails env TransactionCreate \<or> (\<exists>u \<in> set ids. dbFails env (StockPurchaseUpdate u))
           then (Inl StoreFailure, s)
         else (Inr total,
               s\<lparr>transactions := transactions s @ [claimTransaction env user (toFixed2 total)],
                 stockPurchases := markClaimed now ids (stockPurchases s)\<rparr>))"
proof -
  let ?now = "clock env 0"
  let ?cs = "contributing ?now (userId user) s"
  let ?total = "sum_list (map (profitOf ?now) ?cs)"
  note atomic = claim_atomic [OF contributing_ids, where now = ?now and ?now1 = ?now
      and ?uid1 = "userId user" and env = env and user = user and rounded = "toFixed2 ?total"]
  from assms have "find (\<lambda>u. u = userId user) (users s) = Some (userId user)"
    by (rule find_self)
  then show ?thesis
    by (simp add: claimProfit_def accrue_contributing atomic Let_def del: set_map)
qed

lemma claimProfit_no_user:
  "userId user \<notin> set (users s) \<Longrightarrow> claimProfit env user s = (Inl NotFound, s)"
proof -
  assume "userId user \<notin> set (users s)"
  then have "find (\<lambda>u. u = userId user) (users s) = None"
    by (auto simp: find_None_iff)
  then show ?thesis by (simp add: claimProfit_def)
qed





text \<open>
  A positive total below half a cent: the DEPOSIT row is written with amount 0, and the
  answer reports the total itself.
\<close>

lemma claim_of_small_total:
  "claimProfit (healthyEnv 1440 [''c1'', ''c2'']) alice stocksExample
     = (Inr (1 / 250),
        stocksExample
          \<lparr>transactions := [\<lparr>tx_id = ''c1'', tx_type = DEPOSIT, tx_amount = 0, tx_userId = ''alice'',
                             tx_nftId = None, tx_hash = ''c2''\<rparr>],
           stockPurchases := [acmePurchase 1440]\<rparr>)"
proof -
  have u: "userId alice \<in> set (users stocksExample)"
    by (simp add: alice_def stocksExample_def emptyState_def)
  have p: "profitOf 1440 (acmePurchase 0) = 1 / 250"
    by (simp add: profitOf_def hoursSince_def acmePurchase_def)
  have c: "contributing 1440 ''alice'' stocksExample = [acmePurchase 0]"
    using p by (simp add: contributing_def stocksExample_def emptyState_def)
      (simp add: acmePurchase_def)
  have r: "toFixed2 (1 / 250) = 0"
    by (simp add: toFixed2_def floor_eq_iff)
  have k: "clock (healthyEnv 1440 [''c1'', ''c2'']) 0 = 1440" "userId alice = ''alice''"
    "\<not> dbFails (healthyEnv 1440 [''c1'', ''c2'']) TransactionCreate"
    "\<not> dbFails (healthyEnv 1440 [''c1'', ''c2'']) (StockPurchaseUpdate ''p1'')"
    "sp_id (acmePurchase 0) = ''p1''"
    by (simp_all add: healthyEnv_def alice_def acmePurchase_def)
  have after: "stocksExample
       \<lparr>transactions := transactions stocksExample
            @ [claimTransaction (healthyEnv 1440 [''c1'', ''c2'']) alice 0],
        stockPurchases := markClaimed 1440 [''p1''] (stockPurchases stocksExample)\<rparr>
      = stocksExample
          \<lparr>transactions := [\<lparr>tx_id = ''c1'', tx_type = DEPOSIT, tx_amount = 0, tx_userId = ''alice'',
                             tx_nftId = None, tx_hash = ''c2''\<rparr>],
           stockPurchases := [acmePurchase 1440]\<rparr>"
    by (simp add: stocksExample_def emptyState_def claimTransaction_def markClaimed_def
        acmePurchase_def healthyEnv_def alice_def)
  from claimProfit_cases [OF u, of "healthyEnv 1440 [''c1'', ''c2'']"]
  have "claimProfit (healthyEnv 1440 [''c1'', ''c2'']) alice stocksExample
     = (Inr (1 / 250), stocksExample
       \<lparr>transactions := transactions stocksExample
            @ [claimTransaction (healthyEnv 1440 [''c1'', ''c2'']) alice 0],
        stockPurchases := markClaimed 1440 [''p1''] (stockPurchases stocksExample)\<rparr>)"
    by (simp add: Let_def k c p r)
  with after show ?thesis by simp
qed

section \<open>Properties of withdrawal approval and stock purchases\<close>

lemma adminApprove_cases:
  "adminUpdateWithdrawalRequest env rid ''APPROVED'' s =
     (if dbFails env WithdrawalRequestUpdate then (Inl StoreFailure, s)
      else case find (\<lambda>r. wr_id r = rid) (withdrawalRequests s) of
             None \<Rightarrow> (Inl StoreFailure, s)
           | Some r \<Rightarrow>
               (Inr (r\<lparr>wr_status := APPROVED\<rparr>),
                if dbFails env TransactionCreate
                then s\<lparr>withdrawalRequests :=
                         map (\<lambda>q. if wr_id q = rid then q\<lparr>wr_status := APPROVED\<rparr> else q)
                           (withdrawalRequests s)\<rparr>
                else s\<lparr>withdrawalRequests :=
                         map (\<lambda>q. if wr_id q = rid then q\<lparr>wr_status := APPROVED\<rparr> else q)
                           (withdrawalRequests s),
                       transactions := transactions s
                         @ [approvalTransaction env (r\<lparr>wr_status := APPROVED\<rparr>)]\<rparr>))"
  by (simp add: adminUpdateWithdrawalRequest_def withdrawalRequest_update_def statusOf_def
      transaction_create_def split: option.splits)

lemma adminDeny_cases:
  "adminUpdateWithdrawalRequest env rid ''DENIED'' s = withdrawalRequest_update env rid DENIED s"
  by (simp add: adminUpdateWithdrawalRequest_def statusOf_def split: prod.splits sum.splits)

lemma adminUpdate_error_unchanged:
  "adminUpdateWithdrawalRequest env rid normalized s = (Inl e, s') \<Longrightarrow> s' = s"
  by (auto simp: adminUpdateWithdrawalRequest_def withdrawalRequest_update_def
      transaction_create_def split: if_splits option.splits)

lemma hasLedgerEntry_appended:
  "transactions s' = ts @ [approvalTransaction env r] \<Longrightarrow> hasLedgerEntry s' r"
proof -
  assume t: "transactions s' = ts @ [approvalTransaction env r]"
  have "\<exists>x \<in> set (transactions s').
          tx_type x = WITHDRAWAL \<and> tx_userId x = wr_userId r \<and> tx_amount x = wr_amount r"
    unfolding t by (simp add: approvalTransaction_def)
  then show ?thesis
    by (auto simp: hasLedgerEntry_def find_None_iff)
qed

text \<open>
  An approval whose ledger insert is rejected: the request ends APPROVED, the answer is a
  success and the ledger has no WITHDRAWAL row for it.
\<close>

theorem approval_not_atomic_counterexample:
  "adminUpdateWithdrawalRequest (failingEnv 1000 [''h'', ''t''] TransactionCreate) ''w1'' ''APPROVED''
       withdrawalExample
     = (Inr (aliceRequest APPROVED),
        withdrawalExample\<lparr>withdrawalRequests := [aliceRequest APPROVED]\<rparr>)
   \<and> wr_status (aliceRequest APPROVED) = APPROVED
   \<and> transactions (withdrawalExample\<lparr>withdrawalRequests := [aliceRequest APPROVED]\<rparr>)
       = [mkTx ''d1'' DEPOSIT 100 ''alice'']
   \<and> \<not> hasLedgerEntry (withdrawalExample\<lparr>withdrawalRequests := [aliceRequest APPROVED]\<rparr>)
         (aliceRequest APPROVED)"
  by (simp add: adminApprove_cases failingEnv_def withdrawalExample_def emptyState_def
      aliceRequest_def hasLedgerEntry_def mkTx_def)

text \<open>
  The user route sets the status of the caller's own request and writes no ledger row.
\<close>

lemma userApprove_example:
  "userUpdateWithdrawalRequest (healthyEnv 1000 [''h'', ''t'']) alice ''w1'' ''APPROVED'' withdrawalExample
     = (Inr (aliceRequest APPROVED),
        withdrawalExample\<lparr>withdrawalRequests := [aliceRequest APPROVED]\<rparr>)"
  by (simp add: userUpdateWithdrawalRequest_def withdrawalRequest_update_def statusOf_def
      healthyEnv_def withdrawalExample_def emptyState_def aliceRequest_def alice_def)

text \<open>
  C6. The admin update that sets a withdrawal request to APPROVED first writes
  the status and then tries to insert a WITHDRAWAL row of the request's user and amount.
  When the insert is accepted the ledger gains exactly that row. When it is rejected the
  ledger is unchanged, the request stays APPROVED and the update still answers with the
  updated request: the two writes are not one atomic unit. A denial writes no ledger row,
  and an update that answers with an error changes nothing.
\<close>

theorem admin_approval_ledger:
  "(adminUpdateWithdrawalRequest env rid ''APPROVED'' s = (Inr updated, s') \<longrightarrow>
      wr_status updated = APPROVED
      \<and> (\<exists>r. find (\<lambda>r. wr_id r = rid) (withdrawalRequests s) = Some r
               \<and> updated = r\<lparr>wr_status := APPROVED\<rparr>)
      \<and> withdrawalRequests s'
          = map (\<lambda>q. if wr_id q = rid then q\<lparr>wr_status := APPROVED\<rparr> else q) (withdrawalRequests s)
      \<and> (\<not> dbFails env TransactionCreate \<longrightarrow>
            transactions s' = transactions s @ [approvalTransaction env updated]
            \<and> hasLedgerEntry s' updated)
      \<and> (dbFails env TransactionCreate \<longrightarrow> transactions s' = transactions s))
   \<and> tx_type (approvalTransaction env updated) = WITHDRAWAL
   \<and> tx_userId (approvalTransaction env updated) = wr_userId updated
   \<and> tx_amount (approvalTransaction env updated) = wr_amount updated
   \<and> (find (\<lambda>r. wr_id r = rid) (withdrawalRequests s) = Some r
        \<and> \<not> dbFails env WithdrawalRequestUpdate \<longrightarrow>
        fst (adminUpdateWithdrawalRequest env rid ''APPROVED'' s) = Inr (r\<lparr>wr_status := APPROVED\<rparr>))
   \<and> (adminUpdateWithdrawalRequest env rid ''DENIED'' s = (Inr updated, s') \<longrightarrow>
        wr_status updated = DENIED \<and> transactions s' = transactions s)
   \<and> (adminUpdateWithdrawalRequest env rid normalized s = (Inl e, s') \<longrightarrow> s' = s)"
proof -
  have a: "adminUpdateWithdrawalRequest env rid ''APPROVED'' s = (Inr updated, s') \<longrightarrow>
      wr_status updated = APPROVED
      \<and> (\<exists>r. find (\<lambda>r. wr_id r = rid) (withdrawalRequests s) = Some r
               \<and> updated = r\<lparr>wr_status := APPROVED\<rparr>)
      \<and> withdrawalRequests s'
          = map (\<lambda>q. if wr_id q = rid then q\<lparr>wr_status := APPROVED\<rparr> else q) (withdrawalRequests s)
      \<and> (\<not> dbFails env TransactionCreate \<longrightarrow>
            transactions s' = transactions s @ [approvalTransaction env updated]
            \<and> hasLedgerEntry s' updated)
      \<and> (dbFails env TransactionCreate \<longrightarrow> transactions s' = transactions s)"
    by (auto simp: adminApprove_cases intro: hasLedgerEntry_appended
        split: if_splits option.splits)
  have b: "tx_type (approvalTransaction env updated) = WITHDRAWAL"
    "tx_userId (approvalTransaction env updated) = wr_userId updated"
    "tx_amount (approvalTransaction env updated) = wr_amount updated"
    by (simp_all add: approvalTransaction_def)
  have c: "find (\<lambda>r. wr_id r = rid) (withdrawalRequests s) = Some r
        \<and> \<not> dbFails env WithdrawalRequestUpdate \<longrightarrow>
        fst (adminUpdateWithdrawalRequest env rid ''APPROVED'' s) = Inr (r\<lparr>wr_status := APPROVED\<rparr>)"
    by (simp add: adminApprove_cases)
  have d: "adminUpdateWithdrawalRequest env rid ''DENIED'' s = (Inr updated, s') \<longrightarrow>
        wr_status updated = DENIED \<and> transactions s' = transactions s"
    by (auto simp: adminDeny_cases withdrawalRequest_update_def split: if_splits option.splits)
  have e: "adminUpdateWithdrawalRequest env rid normalized s = (Inl e, s') \<longrightarrow> s' = s"
    using adminUpdate_error_unchanged by blast
  from a b c d e show ?thesis by blast
qed

theorem admin_approval_ledger_witness:
  "adminUpdateWithdrawalRequest (healthyEnv 1000 [''h'', ''t'']) ''w1'' ''APPROVED'' withdrawalExample
     = (Inr (aliceRequest APPROVED), approvedExample)
   \<and> hasLedgerEntry approvedExample (aliceRequest APPROVED)
   \<and> availableBalance approvedExample ''alice'' = 50
   \<and> fst (adminUpdateWithdrawalRequest (failingEnv 1000 [''h'', ''t''] TransactionCreate) ''w1''
            ''APPROVED'' withdrawalExample)
       = Inr (aliceRequest APPROVED)
   \<and> transactions (withdrawalExample\<lparr>withdrawalRequests := [aliceRequest APPROVED]\<rparr>)
       = transactions withdrawalExample
   \<and> adminUpdateWithdrawalRequest (failingEnv 1000 [''h'', ''t''] WithdrawalRequestUpdate) ''w1''
         ''APPROVED'' withdrawalExample
       = (Inl StoreFailure, withdrawalExample)"
proof -
  let ?env = "healthyEnv 1000 [''h'', ''t'']"
  let ?bad = "failingEnv 1000 [''h'', ''t''] TransactionCreate"
  let ?worse = "failingEnv 1000 [''h'', ''t''] WithdrawalRequestUpdate"
  have run: "adminUpdateWithdrawalRequest ?env ''w1'' ''APPROVED'' withdrawalExample
     = (Inr (aliceRequest APPROVED), approvedExample)"
    by (simp add: adminApprove_cases healthyEnv_def withdrawalExample_def emptyState_def
        aliceRequest_def approvedExample_def approvalTransaction_def mkTx_def)
  have run2: "adminUpdateWithdrawalRequest ?bad ''w1'' ''APPROVED'' withdrawalExample
     = (Inr (aliceRequest APPROVED), withdrawalExample\<lparr>withdrawalRequests := [aliceRequest APPROVED]\<rparr>)"
    by (simp add: adminApprove_cases failingEnv_def withdrawalExample_def emptyState_def
        aliceRequest_def)
  have run3: "adminUpdateWithdrawalRequest ?worse ''w1'' ''APPROVED'' withdrawalExample
     = (Inl StoreFailure, withdrawalExample)"
    by (simp add: adminApprove_cases failingEnv_def)
  have f: "\<not> dbFails ?env TransactionCreate" "dbFails ?bad TransactionCreate"
    "\<not> dbFails ?bad WithdrawalRequestUpdate"
    by (simp_all add: healthyEnv_def failingEnv_def)
  have found: "find (\<lambda>r. wr_id r = ''w1'') (withdrawalRequests withdrawalExample)
      = Some (aliceRequest PENDING)"
    by (simp add: withdrawalExample_def emptyState_def aliceRequest_def)
  have upd: "aliceRequest PENDING\<lparr>wr_status := APPROVED\<rparr> = aliceRequest APPROVED"
    by (simp add: aliceRequest_def)
  note good = admin_approval_ledger [where env = ?env and rid = "''w1''" and s = withdrawalExample
      and updated = "aliceRequest APPROVED" and s' = approvedExample and r = "aliceRequest PENDING"
      and normalized = "''APPROVED''" and e = StoreFailure]
  note bad = admin_approval_ledger [where env = ?bad and rid = "''w1''" and s = withdrawalExample
      and updated = "aliceRequest APPROVED"
      and s' = "withdrawalExample\<lparr>withdrawalRequests := [aliceRequest APPROVED]\<rparr>"
      and r = "aliceRequest PENDING" and normalized = "''APPROVED''" and e = StoreFailure]
  from good run f have entry: "hasLedgerEntry approvedExample (aliceRequest APPROVED)"
    by simp
  have bal: "availableBalance approvedExample ''alice'' = 50"
    by (simp add: availableBalance_spec spec_computeBalance_def sumOfType_def approvedExample_def
        withdrawalExample_def emptyState_def mkTx_def)
  from bad found f upd
  have ok: "fst (adminUpdateWithdrawalRequest ?bad ''w1'' ''APPROVED'' withdrawalExample)
       = Inr (aliceRequest APPROVED)"
    by simp
  from bad run2 f
  have same: "transactions (withdrawalExample\<lparr>withdrawalRequests := [aliceRequest APPROVED]\<rparr>)
       = transactions withdrawalExample"
    by simp
  from run entry bal ok same run3 show ?thesis by simp
qed






end
